theory Spec2Isabelle
  imports Main "HOL-Library.Multiset"
begin

section \<open>JavaScript values and errors\<close>

text \<open>
  The values that the model functions of \<^verbatim>\<open>models/user.js\<close> return: row objects
  of the database client (an object is the list of its keys with their values, in the
  order of the selected columns), arrays of them, \<^verbatim>\<open>true\<close> and \<^verbatim>\<open>undefined\<close>.
  Timestamps are natural numbers (ticks of the store's clock).
\<close>

datatype jsval =
    JUndefined
  | JNull
  | JBool bool
  | JNum int
  | JStr string
  | JTime nat
  | JObj "(string \<times> jsval) list"
  | JArr "jsval list"

type_synonym row = "(string \<times> jsval) list"

text \<open>
  \<^verbatim>\<open>new ExpressError(message, status)\<close> is the only error the source raises itself.
  \<open>DbError\<close> is a query that the store rejects, with the SQLSTATE code that the
  database client reports in the \<^verbatim>\<open>code\<close> of its error (\<^verbatim>\<open>23505\<close> is the violation
  of a unique key), and \<open>BcryptError\<close> is what \<^verbatim>\<open>bcrypt.compare\<close> rejects with when an argument is
  not a string.
\<close>

datatype error =
    ExpressError string nat
  | DbError string
  | BcryptError string

text \<open>JavaScript truthiness, as \<^verbatim>\<open>if (x)\<close> and \<^verbatim>\<open>!x\<close> read a value.\<close>

fun truthy :: "jsval \<Rightarrow> bool" where
  "truthy JUndefined = False"
| "truthy JNull = False"
| "truthy (JBool b) = b"
| "truthy (JNum n) = (n \<noteq> 0)"
| "truthy (JStr s) = (s \<noteq> [])"
| "truthy (JTime t) = True"
| "truthy (JObj kvs) = True"
| "truthy (JArr xs) = True"

text \<open>\<^verbatim>\<open>r.k\<close> on a row object: the value under the key, \<^verbatim>\<open>undefined\<close> without it.\<close>

definition field :: "row \<Rightarrow> string \<Rightarrow> jsval" where
  "field r k = (case map_of r k of None \<Rightarrow> JUndefined | Some v \<Rightarrow> v)"

text \<open>\<^verbatim>\<open>result.rows[0]\<close>: the first row, \<^verbatim>\<open>undefined\<close> when there is none.\<close>

definition first_row :: "row list \<Rightarrow> jsval" where
  "first_row rows = (case rows of [] \<Rightarrow> JUndefined | r # _ \<Rightarrow> JObj r)"

section \<open>The store\<close>

text \<open>
  Modelled from the spec: the schema file of the two tables is not part of the sources;
  section 6 of the specification gives it as
  \<^verbatim>\<open>users(username PK, password, first_name, last_name, phone, join_at, last_login_at)\<close> and
  \<^verbatim>\<open>messages(id PK, from_username FK, to_username FK, body, sent_at, read_at)\<close>,
  with \<^verbatim>\<open>read_at\<close> nullable.
\<close>

record user_row =
  u_username :: string
  u_password :: string
  u_first_name :: string
  u_last_name :: string
  u_phone :: string
  u_join_at :: nat
  u_last_login_at :: nat

record message_row =
  m_id :: int
  m_from_username :: string
  m_to_username :: string
  m_body :: string
  m_sent_at :: nat
  m_read_at :: "nat option"

record db =
  users :: "user_row list"
  messages :: "message_row list"

definition usernames :: "db \<Rightarrow> string set" where
  "usernames d = set (map u_username (users d))"

text \<open>
  Modelled from the spec: the constraints of that schema, the primary keys and the two
  foreign keys of a message.
\<close>

definition wf_db :: "db \<Rightarrow> bool" where
  "wf_db d \<longleftrightarrow>
     distinct (map u_username (users d)) \<and>
     distinct (map m_id (messages d)) \<and>
     list_all (\<lambda>m. m_from_username m \<in> usernames d \<and> m_to_username m \<in> usernames d)
       (messages d)"

fun null_or_time :: "nat option \<Rightarrow> jsval" where
  "null_or_time None = JNull"
| "null_or_time (Some t) = JTime t"

subsection \<open>The queries of the source\<close>

text \<open>
  Each \<^verbatim>\<open>db.query\<close> of the source, as a function from the store to the rows it
  returns and the store afterwards. \<open>now\<close> is \<^verbatim>\<open>current_timestamp\<close>.
\<close>

text \<open>
  \<^verbatim>\<open>INSERT INTO users (...) VALUES ($1, $2, $3, $4, $5, current_timestamp, current_timestamp)
  RETURNING username, password, first_name, last_name, phone\<close>
\<close>

text \<open>
  The store refuses a row also for reasons of its own, which neither the sources nor the
  schema show (a text value that it cannot encode, a key too long for its index):
  \<open>store_rejects\<close> gives, for the store and the row, the SQLSTATE code of such a refusal,
  or \<open>None\<close> when there is none. It is a parameter. A refused \<^verbatim>\<open>INSERT\<close> adds no
  row.
\<close>

definition insert_user ::
  "(db \<Rightarrow> user_row \<Rightarrow> string option) \<Rightarrow>
   nat \<Rightarrow> string \<Rightarrow> string \<Rightarrow> string \<Rightarrow> string \<Rightarrow> string \<Rightarrow> db \<Rightarrow> (error + row list) \<times> db" where
  "insert_user store_rejects now username hashedPassword first_name last_name phone d =
     (let new = \<lparr>u_username = username, u_password = hashedPassword,
                 u_first_name = first_name, u_last_name = last_name, u_phone = phone,
                 u_join_at = now, u_last_login_at = now\<rparr> in
      case store_rejects d new of
        Some code \<Rightarrow> (Inl (DbError code), d)
      | None \<Rightarrow>
          if username \<in> usernames d
          then (Inl (DbError ''23505''), d)
          else (Inr [[(''username'', JStr username),
                      (''password'', JStr hashedPassword),
                      (''first_name'', JStr first_name),
                      (''last_name'', JStr last_name),
                      (''phone'', JStr phone)]],
                d\<lparr>users := users d @ [new]\<rparr>))"

text \<open>\<^verbatim>\<open>SELECT username, password FROM users WHERE username = $1\<close>\<close>

definition select_credentials :: "string \<Rightarrow> db \<Rightarrow> row list \<times> db" where
  "select_credentials username d =
     ([[(''username'', JStr (u_username u)), (''password'', JStr (u_password u))].
         u \<leftarrow> users d, u_username u = username], d)"

text \<open>
  \<^verbatim>\<open>UPDATE users SET last_login_at = current_timestamp WHERE username = $1
  RETURNING username, last_login_at\<close>
\<close>

definition update_last_login :: "nat \<Rightarrow> string \<Rightarrow> db \<Rightarrow> row list \<times> db" where
  "update_last_login now username d =
     ([[(''username'', JStr (u_username u)), (''last_login_at'', JTime now)].
         u \<leftarrow> users d, u_username u = username],
      d\<lparr>users := map (\<lambda>u. if u_username u = username
                            then u\<lparr>u_last_login_at := now\<rparr> else u) (users d)\<rparr>)"

text \<open>\<^verbatim>\<open>SELECT username, first_name, last_name, phone FROM users\<close>\<close>

definition select_all_users :: "db \<Rightarrow> row list \<times> db" where
  "select_all_users d =
     ([[(''username'', JStr (u_username u)),
        (''first_name'', JStr (u_first_name u)),
        (''last_name'', JStr (u_last_name u)),
        (''phone'', JStr (u_phone u))]. u \<leftarrow> users d], d)"

text \<open>
  \<^verbatim>\<open>SELECT username, first_name, last_name, phone, join_at, last_login_at
  FROM users WHERE username = $1\<close>
\<close>

definition select_user :: "string \<Rightarrow> db \<Rightarrow> row list \<times> db" where
  "select_user username d =
     ([[(''username'', JStr (u_username u)),
        (''first_name'', JStr (u_first_name u)),
        (''last_name'', JStr (u_last_name u)),
        (''phone'', JStr (u_phone u)),
        (''join_at'', JTime (u_join_at u)),
        (''last_login_at'', JTime (u_last_login_at u))].
         u \<leftarrow> users d, u_username u = username], d)"

text \<open>
  The row of the two joins: the four columns of the message \<open>m\<close> and the four public
  columns of the joined user \<open>c\<close> (\<^verbatim>\<open>t\<close> in \<^verbatim>\<open>messagesFrom\<close>, \<^verbatim>\<open>f\<close> in
  \<^verbatim>\<open>messagesTo\<close>).
\<close>

definition joined_row :: "message_row \<Rightarrow> user_row \<Rightarrow> row" where
  "joined_row m c =
     [(''id'', JNum (m_id m)),
      (''body'', JStr (m_body m)),
      (''sent_at'', JTime (m_sent_at m)),
      (''read_at'', null_or_time (m_read_at m)),
      (''username'', JStr (u_username c)),
      (''first_name'', JStr (u_first_name c)),
      (''last_name'', JStr (u_last_name c)),
      (''phone'', JStr (u_phone c))]"

text \<open>
  The two joins that both message queries make for a message \<open>m\<close>:
  \<^verbatim>\<open>JOIN users AS f ON m.from_username = f.username
  JOIN users AS t ON m.to_username = t.username\<close>
\<close>

definition joined_users :: "message_row \<Rightarrow> db \<Rightarrow> (user_row \<times> user_row) list" where
  "joined_users m d =
     [(f, t).
        f \<leftarrow> users d, m_from_username m = u_username f,
        t \<leftarrow> users d, m_to_username m = u_username t]"

text \<open>
  Neither message query has an \<^verbatim>\<open>ORDER BY\<close>: the store returns the joined rows in an
  order of its own choice. \<open>row_order\<close> is that choice, a parameter; the rows come back as
  it arranges them whenever it only rearranges them, which is all that the store does.
\<close>

definition in_store_order :: "(row list \<Rightarrow> row list) \<Rightarrow> row list \<Rightarrow> row list" where
  "in_store_order row_order rows =
     (if mset (row_order rows) = mset rows then row_order rows else rows)"

text \<open>
  \<^verbatim>\<open>SELECT m.id, m.body, m.sent_at, m.read_at, t.username, t.first_name, t.last_name, t.phone
  FROM messages AS m
  JOIN users AS f ON m.from_username = f.username
  JOIN users AS t ON m.to_username = t.username
  WHERE m.from_username = $1\<close>
\<close>

definition select_messages_from ::
  "(row list \<Rightarrow> row list) \<Rightarrow> string \<Rightarrow> db \<Rightarrow> row list \<times> db" where
  "select_messages_from row_order username d =
     (in_store_order row_order
        [joined_row m t.
           m \<leftarrow> messages d, (f, t) \<leftarrow> joined_users m d, m_from_username m = username], d)"

text \<open>
  The same joins with \<^verbatim>\<open>f.username, f.first_name, f.last_name, f.phone\<close> selected and
  \<^verbatim>\<open>WHERE m.to_username = $1\<close>.
\<close>

definition select_messages_to ::
  "(row list \<Rightarrow> row list) \<Rightarrow> string \<Rightarrow> db \<Rightarrow> row list \<times> db" where
  "select_messages_to row_order username d =
     (in_store_order row_order
        [joined_row m f.
           m \<leftarrow> messages d, (f, t) \<leftarrow> joined_users m d, m_to_username m = username], d)"

section \<open>The class User\<close>

text \<open>
  \<^verbatim>\<open>bcrypt.hash\<close>, \<^verbatim>\<open>bcrypt.compare\<close> and the configured
  \<^verbatim>\<open>BCRYPT_WORK_FACTOR\<close> are parameters: \<open>bcrypt_hash\<close> is the hash this call
  computes (with the salt it drew), \<open>bcrypt_compare\<close> the verification.
\<close>

definition register ::
  "(db \<Rightarrow> user_row \<Rightarrow> string option) \<Rightarrow> (string \<Rightarrow> nat \<Rightarrow> string) \<Rightarrow> nat \<Rightarrow> nat \<Rightarrow>
   string \<Rightarrow> string \<Rightarrow> string \<Rightarrow> string \<Rightarrow> string \<Rightarrow> db \<Rightarrow> (error + jsval) \<times> db" where
  "register store_rejects bcrypt_hash BCRYPT_WORK_FACTOR now
     username password first_name last_name phone d =
     (let hashedPassword = bcrypt_hash password BCRYPT_WORK_FACTOR in
      case insert_user store_rejects now username hashedPassword first_name last_name phone d of
        (Inl e, d') \<Rightarrow> (Inl e, d')
      | (Inr rows, d') \<Rightarrow> (Inr (first_row rows), d'))"

text \<open>
  \<^verbatim>\<open>authenticate\<close> returns \<^verbatim>\<open>true\<close> inside the two conditions and falls off the
  end of the function otherwise, which returns \<^verbatim>\<open>undefined\<close>.
\<close>

definition authenticate ::
  "(string \<Rightarrow> string \<Rightarrow> bool) \<Rightarrow> string \<Rightarrow> string \<Rightarrow> db \<Rightarrow> (error + jsval) \<times> db" where
  "authenticate bcrypt_compare username password d =
     (case select_credentials username d of (rows, d') \<Rightarrow>
        (case first_row rows of
           JObj user \<Rightarrow>
             (case field user ''password'' of
                JStr hash \<Rightarrow>
                  if bcrypt_compare password hash = True
                  then (Inr (JBool True), d')
                  else (Inr JUndefined, d')
              | _ \<Rightarrow> (Inl (BcryptError ''data and hash must be strings''), d'))
         | _ \<Rightarrow> (Inr JUndefined, d')))"

definition updateLoginTimestamp :: "nat \<Rightarrow> string \<Rightarrow> db \<Rightarrow> (error + jsval) \<times> db" where
  "updateLoginTimestamp now username d =
     (case update_last_login now username d of (rows, d') \<Rightarrow>
        (let user = first_row rows in
         if \<not> truthy user
         then (Inl (ExpressError (''No such user: '' @ username) 404), d')
         else (Inr user, d')))"

text \<open>\<^verbatim>\<open>User.all\<close>: the value tested is \<^verbatim>\<open>result.rows\<close>, the array itself.\<close>

definition all :: "db \<Rightarrow> (error + jsval) \<times> db" where
  "all d =
     (case select_all_users d of (rows, d') \<Rightarrow>
        (let user = JArr (map JObj rows) in
         if \<not> truthy user
         then (Inl (ExpressError ''No users'' 404), d')
         else (Inr user, d')))"

definition get :: "string \<Rightarrow> db \<Rightarrow> (error + jsval) \<times> db" where
  "get username d =
     (case select_user username d of (rows, d') \<Rightarrow>
        (let user = first_row rows in
         if \<not> truthy user
         then (Inl (ExpressError (''No such user: '' @ username) 404), d')
         else (Inr user, d')))"

text \<open>The object built in the body of the loop of \<^verbatim>\<open>messagesFrom\<close>.\<close>

definition mess_from :: "row \<Rightarrow> jsval" where
  "mess_from r =
     JObj [(''id'', field r ''id''),
           (''body'', field r ''body''),
           (''sent_at'', field r ''sent_at''),
           (''read_at'', field r ''read_at''),
           (''to_user'', JObj [(''username'', field r ''username''),
                              (''first_name'', field r ''first_name''),
                              (''last_name'', field r ''last_name''),
                              (''phone'', field r ''phone'')])]"

text \<open>The object built in the body of the loop of \<^verbatim>\<open>messagesTo\<close>.\<close>

definition mess_to :: "row \<Rightarrow> jsval" where
  "mess_to r =
     JObj [(''id'', field r ''id''),
           (''body'', field r ''body''),
           (''sent_at'', field r ''sent_at''),
           (''read_at'', field r ''read_at''),
           (''from_user'', JObj [(''username'', field r ''username''),
                                (''first_name'', field r ''first_name''),
                                (''last_name'', field r ''last_name''),
                                (''phone'', field r ''phone'')])]"

text \<open>
  \<^verbatim>\<open>for (let i = 0; i < messages.length; i++) { ...; acc.push(mess) }\<close>, with the
  object of the body as \<open>mk\<close>.
\<close>

function push_loop :: "(row \<Rightarrow> jsval) \<Rightarrow> row list \<Rightarrow> nat \<Rightarrow> jsval list \<Rightarrow> jsval list" where
  "push_loop mk msgs i acc =
     (if i < length msgs then push_loop mk msgs (i + 1) (acc @ [mk (msgs ! i)]) else acc)"
  by pat_completeness auto
termination
  by (relation "measure (\<lambda>(mk, msgs, i, acc). length msgs - i)") auto

declare push_loop.simps [simp del]

definition messagesFrom ::
  "(row list \<Rightarrow> row list) \<Rightarrow> string \<Rightarrow> db \<Rightarrow> (error + jsval) \<times> db" where
  "messagesFrom row_order username d =
     (case select_messages_from row_order username d of (msgs, d') \<Rightarrow>
        (let m = first_row msgs in
         if \<not> truthy m
         then (Inl (ExpressError (''No messages from this user: '' @ username) 404), d')
         else (Inr (JArr (push_loop mess_from msgs 0 [])), d')))"

definition messagesTo ::
  "(row list \<Rightarrow> row list) \<Rightarrow> string \<Rightarrow> db \<Rightarrow> (error + jsval) \<times> db" where
  "messagesTo row_order username d =
     (case select_messages_to row_order username d of (msgs, d') \<Rightarrow>
        (let m = first_row msgs in
         if \<not> truthy m
         then (Inl (ExpressError (''No messages to this user: '' @ username) 404), d')
         else (Inr (JArr (push_loop mess_to msgs 0 [])), d')))"

section \<open>Example data\<close>

text \<open>
  A stand-in for \<^verbatim>\<open>bcrypt.hash\<close> and one for \<^verbatim>\<open>bcrypt.compare\<close>, a store that
  refuses the text values with a zero byte (SQLSTATE \<^verbatim>\<open>22021\<close>) and no others, and small
  stores, on which the theorems below are evaluated. No theorem about the class depends
  on them: there the functions are arbitrary.
\<close>

definition example_hash :: "string \<Rightarrow> nat \<Rightarrow> string" where
  "example_hash password rounds = ''$2b$'' @ rev password"

definition example_compare :: "string \<Rightarrow> string \<Rightarrow> bool" where
  "example_compare password hash = (hash = ''$2b$'' @ rev password)"

definition example_store_rejects :: "db \<Rightarrow> user_row \<Rightarrow> string option" where
  "example_store_rejects d new =
     (if CHR 0x00 \<in> set (u_username new @ u_password new @ u_first_name new @
                           u_last_name new @ u_phone new)
      then Some ''22021'' else None)"

definition empty_db :: db where
  "empty_db = \<lparr>users = [], messages = []\<rparr>"

definition alice :: user_row where
  "alice = \<lparr>u_username = ''alice'', u_password = ''$2b$1terces'',
            u_first_name = ''Alice'', u_last_name = ''Liddell'', u_phone = ''555-0001'',
            u_join_at = 1, u_last_login_at = 2\<rparr>"

definition bob :: user_row where
  "bob = \<lparr>u_username = ''bob'', u_password = ''$2b$2terces'',
          u_first_name = ''Bob'', u_last_name = ''Dobbs'', u_phone = ''555-0002'',
          u_join_at = 3, u_last_login_at = 3\<rparr>"

definition hi :: message_row where
  "hi = \<lparr>m_id = 1, m_from_username = ''alice'', m_to_username = ''bob'',
         m_body = ''hi'', m_sent_at = 4, m_read_at = None\<rparr>"

definition example_db :: db where
  "example_db = \<lparr>users = [alice, bob], messages = [hi]\<rparr>"

definition hello :: message_row where
  "hello = \<lparr>m_id = 2, m_from_username = ''bob'', m_to_username = ''alice'',
            m_body = ''hello'', m_sent_at = 5, m_read_at = Some 6\<rparr>"

definition bye :: message_row where
  "bye = \<lparr>m_id = 4, m_from_username = ''alice'', m_to_username = ''bob'',
          m_body = ''bye'', m_sent_at = 7, m_read_at = None\<rparr>"

definition chat_db :: db where
  "chat_db = \<lparr>users = [alice, bob], messages = [hi, hello, bye]\<rparr>"

lemmas example_defs =
  example_db_def empty_db_def alice_def bob_def hi_def example_hash_def example_compare_def

lemma wf_example_db: "wf_db example_db"
  by (simp add: wf_db_def usernames_def example_defs)

lemma wf_chat_db: "wf_db chat_db"
  by (simp add: wf_db_def usernames_def chat_db_def alice_def bob_def hi_def hello_def bye_def)

section \<open>Selections on a keyed table\<close>

lemma concat_map_if: "concat (map (\<lambda>u. if P u then [g u] else []) xs) = map g (filter P xs)"
  by (induction xs) simp_all

lemma filter_key_unique:
  "distinct (map f xs) \<Longrightarrow> x \<in> set xs \<Longrightarrow> filter (\<lambda>y. f y = f x) xs = [x]"
proof (induction xs)
  case Nil
  then show ?case by simp
next
  case (Cons a xs)
  show ?case
  proof (cases "a = x")
    case True
    have "\<forall>y\<in>set xs. f y \<noteq> f x"
      using Cons.prems True by (auto simp: image_iff)
    then have "filter (\<lambda>y. f y = f x) xs = []"
      by (simp add: filter_empty_conv)
    with True show ?thesis by simp
  next
    case False
    with Cons.prems have "x \<in> set xs" "f a \<noteq> f x" by force+
    with Cons show ?thesis by simp
  qed
qed

lemma filter_key_absent: "k \<notin> set (map f xs) \<Longrightarrow> filter (\<lambda>y. f y = k) xs = []"
  by (induction xs) auto

lemma users_named_absent:
  "username \<notin> usernames d \<Longrightarrow> filter (\<lambda>u. u_username u = username) (users d) = []"
  by (simp add: usernames_def filter_key_absent del: set_map)

lemma users_named_unique:
  assumes "wf_db d" and "u \<in> set (users d)"
  shows "filter (\<lambda>y. u_username y = u_username u) (users d) = [u]"
proof -
  from assms(1) have "distinct (map u_username (users d))"
    by (simp add: wf_db_def)
  from filter_key_unique[OF this assms(2)] show ?thesis .
qed

section \<open>Registration\<close>

text \<open>
  C1, as the code has it. A successful \<^verbatim>\<open>register\<close> returns the row of the
  \<^verbatim>\<open>RETURNING\<close> clause: the keys username, password, first_name, last_name and
  phone, where the value under password is the hash that was stored (the result of
  \<^verbatim>\<open>bcrypt.hash\<close>, not the argument), and the other four are the arguments.
\<close>

theorem register_returns_row_with_hash:
  assumes "fst (register rej h w now username password first_name last_name phone d) = Inr v"
  shows "v = JObj [(''username'', JStr username),
                   (''password'', JStr (h password w)),
                   (''first_name'', JStr first_name),
                   (''last_name'', JStr last_name),
                   (''phone'', JStr phone)] \<and>
         users (snd (register rej h w now username password first_name last_name phone d)) =
           users d @ [\<lparr>u_username = username, u_password = h password w,
                       u_first_name = first_name, u_last_name = last_name, u_phone = phone,
                       u_join_at = now, u_last_login_at = now\<rparr>]"
  using assms
  by (auto simp add: register_def insert_user_def first_row_def Let_def
      split: if_splits option.splits)

theorem register_returns_row_with_hash_witness:
  "fst (register example_store_rejects example_hash 12 7
          ''carol'' ''pw'' ''Carol'' ''Kaye'' ''555-0003'' example_db) =
     Inr (JObj [(''username'', JStr ''carol''),
                (''password'', JStr ''$2b$wp''),
                (''first_name'', JStr ''Carol''),
                (''last_name'', JStr ''Kaye''),
                (''phone'', JStr ''555-0003'')]) \<and>
   users (snd (register example_store_rejects example_hash 12 7
                 ''carol'' ''pw'' ''Carol'' ''Kaye'' ''555-0003'' example_db)) =
     [alice, bob,
      \<lparr>u_username = ''carol'', u_password = ''$2b$wp'',
       u_first_name = ''Carol'', u_last_name = ''Kaye'', u_phone = ''555-0003'',
       u_join_at = 7, u_last_login_at = 7\<rparr>]"
proof -
  have ok: "fst (register example_store_rejects example_hash 12 7
                   ''carol'' ''pw'' ''Carol'' ''Kaye'' ''555-0003'' example_db) =
            Inr (JObj [(''username'', JStr ''carol''),
                       (''password'', JStr ''$2b$wp''),
                       (''first_name'', JStr ''Carol''),
                       (''last_name'', JStr ''Kaye''),
                       (''phone'', JStr ''555-0003'')])"
    by (simp add: register_def insert_user_def first_row_def Let_def usernames_def
        example_store_rejects_def example_defs)
  from register_returns_row_with_hash[OF ok] ok show ?thesis
    by (simp add: example_defs)
qed

text \<open>
  C1 as stated fails: registering alice on the empty store returns an object whose
  password is the very hash written to the new row.
\<close>

theorem register_hides_hash_counterexample:
  "register example_store_rejects example_hash 12 0
     ''alice'' ''secret1'' ''Alice'' ''Liddell'' ''555-0001'' empty_db =
     (Inr (JObj [(''username'', JStr ''alice''),
                 (''password'', JStr ''$2b$1terces''),
                 (''first_name'', JStr ''Alice''),
                 (''last_name'', JStr ''Liddell''),
                 (''phone'', JStr ''555-0001'')]),
      \<lparr>users = [\<lparr>u_username = ''alice'', u_password = ''$2b$1terces'',
                  u_first_name = ''Alice'', u_last_name = ''Liddell'', u_phone = ''555-0001'',
                  u_join_at = 0, u_last_login_at = 0\<rparr>],
       messages = []\<rparr>)"
  by (simp add: register_def insert_user_def first_row_def usernames_def Let_def
      example_store_rejects_def example_defs)

text \<open>
  C4, as the code has it. \<^verbatim>\<open>register\<close> validates nothing and has no error of its own:
  whatever the username and the password, empty or not, an error that it raises is the one
  with which the store refused the \<^verbatim>\<open>INSERT\<close>, and then no row was created; and a
  call with an empty username or an empty password whose \<^verbatim>\<open>INSERT\<close> the store does
  not refuse creates the row, with that username and the hash of that password, and
  returns it.
\<close>

theorem register_has_no_validation:
  "(\<forall>e. fst (register rej h w now username password first_name last_name phone d) = Inl e \<longrightarrow>
      (\<exists>code. e = DbError code) \<and>
      fst (insert_user rej now username (h password w) first_name last_name phone d) = Inl e \<and>
      snd (register rej h w now username password first_name last_name phone d) = d) \<and>
   ((username = [] \<or> password = []) \<longrightarrow>
    (\<forall>rows d'. insert_user rej now username (h password w) first_name last_name phone d =
                   (Inr rows, d') \<longrightarrow>
       register rej h w now username password first_name last_name phone d =
         (Inr (JObj [(''username'', JStr username),
                     (''password'', JStr (h password w)),
                     (''first_name'', JStr first_name),
                     (''last_name'', JStr last_name),
                     (''phone'', JStr phone)]),
          d\<lparr>users := users d @
               [\<lparr>u_username = username, u_password = h password w,
                 u_first_name = first_name, u_last_name = last_name, u_phone = phone,
                 u_join_at = now, u_last_login_at = now\<rparr>]\<rparr>)))"
  by (auto simp add: register_def insert_user_def first_row_def Let_def
      split: if_splits option.splits)

theorem register_has_no_validation_witness:
  "insert_user example_store_rejects 9 ''dave'' (example_hash [] 12)
     ''Dave'' ''Dee'' ''555-0004'' example_db =
     (Inr [[(''username'', JStr ''dave''),
            (''password'', JStr ''$2b$''),
            (''first_name'', JStr ''Dave''),
            (''last_name'', JStr ''Dee''),
            (''phone'', JStr ''555-0004'')]],
      example_db\<lparr>users := users example_db @
         [\<lparr>u_username = ''dave'', u_password = ''$2b$'',
           u_first_name = ''Dave'', u_last_name = ''Dee'', u_phone = ''555-0004'',
           u_join_at = 9, u_last_login_at = 9\<rparr>]\<rparr>) \<and>
   register example_store_rejects example_hash 12 9 ''dave'' [] ''Dave'' ''Dee'' ''555-0004''
     example_db =
     (Inr (JObj [(''username'', JStr ''dave''),
                 (''password'', JStr ''$2b$''),
                 (''first_name'', JStr ''Dave''),
                 (''last_name'', JStr ''Dee''),
                 (''phone'', JStr ''555-0004'')]),
      example_db\<lparr>users := users example_db @
         [\<lparr>u_username = ''dave'', u_password = ''$2b$'',
           u_first_name = ''Dave'', u_last_name = ''Dee'', u_phone = ''555-0004'',
           u_join_at = 9, u_last_login_at = 9\<rparr>]\<rparr>) \<and>
   register example_store_rejects example_hash 12 9 [] [CHR 0x00] ''Dave'' ''Dee'' ''555-0004''
     example_db = (Inl (DbError ''22021''), example_db) \<and>
   register example_store_rejects example_hash 12 9 ''bob'' [] ''Dave'' ''Dee'' ''555-0004''
     example_db = (Inl (DbError ''23505''), example_db)"
proof -
  have i: "insert_user example_store_rejects 9 ''dave'' (example_hash [] 12)
     ''Dave'' ''Dee'' ''555-0004'' example_db =
     (Inr [[(''username'', JStr ''dave''),
            (''password'', JStr ''$2b$''),
            (''first_name'', JStr ''Dave''),
            (''last_name'', JStr ''Dee''),
            (''phone'', JStr ''555-0004'')]],
      example_db\<lparr>users := users example_db @
         [\<lparr>u_username = ''dave'', u_password = ''$2b$'',
           u_first_name = ''Dave'', u_last_name = ''Dee'', u_phone = ''555-0004'',
           u_join_at = 9, u_last_login_at = 9\<rparr>]\<rparr>)"
    by (simp add: insert_user_def Let_def usernames_def example_store_rejects_def example_defs)
  have e: "''dave'' = [] \<or> [] = ([] :: string)"
    by simp
  from register_has_no_validation[of example_store_rejects example_hash 12 9 "''dave''" "[]"
      "''Dave''" "''Dee''" "''555-0004''" example_db] e i
  have 1: "register example_store_rejects example_hash 12 9 ''dave'' [] ''Dave'' ''Dee''
             ''555-0004'' example_db =
     (Inr (JObj [(''username'', JStr ''dave''),
                 (''password'', JStr ''$2b$''),
                 (''first_name'', JStr ''Dave''),
                 (''last_name'', JStr ''Dee''),
                 (''phone'', JStr ''555-0004'')]),
      example_db\<lparr>users := users example_db @
         [\<lparr>u_username = ''dave'', u_password = ''$2b$'',
           u_first_name = ''Dave'', u_last_name = ''Dee'', u_phone = ''555-0004'',
           u_join_at = 9, u_last_login_at = 9\<rparr>]\<rparr>)"
    by (simp add: example_hash_def)
  have 2: "register example_store_rejects example_hash 12 9 [] [CHR 0x00] ''Dave'' ''Dee''
             ''555-0004'' example_db = (Inl (DbError ''22021''), example_db)"
    by (simp add: register_def insert_user_def Let_def example_store_rejects_def
        example_hash_def)
  have 3: "register example_store_rejects example_hash 12 9 ''bob'' [] ''Dave'' ''Dee''
             ''555-0004'' example_db = (Inl (DbError ''23505''), example_db)"
    by (simp add: register_def insert_user_def Let_def usernames_def
        example_store_rejects_def example_defs)
  from i 1 2 3 show ?thesis by simp
qed

text \<open>
  C4 as stated fails: with the empty username and the empty password on the empty store,
  no error is raised and a row is created.
\<close>

theorem register_rejects_empty_counterexample:
  "register example_store_rejects example_hash 12 0 [] [] ''Alice'' ''Liddell'' ''555-0001''
     empty_db =
     (Inr (JObj [(''username'', JStr []),
                 (''password'', JStr ''$2b$''),
                 (''first_name'', JStr ''Alice''),
                 (''last_name'', JStr ''Liddell''),
                 (''phone'', JStr ''555-0001'')]),
      \<lparr>users = [\<lparr>u_username = [], u_password = ''$2b$'',
                  u_first_name = ''Alice'', u_last_name = ''Liddell'', u_phone = ''555-0001'',
                  u_join_at = 0, u_last_login_at = 0\<rparr>],
       messages = []\<rparr>)"
  by (simp add: register_def insert_user_def first_row_def usernames_def Let_def
      example_store_rejects_def example_defs)

section \<open>Authentication\<close>

lemma authenticate_never_false:
  "fst (authenticate bcrypt_compare username password d) \<noteq> Inr (JBool False)"
  by (simp add: authenticate_def select_credentials_def split: jsval.splits)

text \<open>
  C2 at an input where the code departs from it: for a username that is absent,
  \<^verbatim>\<open>authenticate\<close> completes with \<^verbatim>\<open>undefined\<close>, not with the boolean
  \<^verbatim>\<open>false\<close>; and for alice with a wrong password likewise.
\<close>

theorem authenticate_returns_undefined:
  "authenticate example_compare ''carol'' ''x'' example_db = (Inr JUndefined, example_db) \<and>
   authenticate example_compare ''alice'' ''wrong'' example_db = (Inr JUndefined, example_db) \<and>
   authenticate example_compare ''alice'' ''secret1'' example_db = (Inr (JBool True), example_db)"
  by (simp add: authenticate_def select_credentials_def first_row_def field_def example_defs)

section \<open>Listing the users\<close>

text \<open>
  C3 at the input where the code departs from it: on the store without users
  \<^verbatim>\<open>all\<close> returns the empty array; the test \<^verbatim>\<open>!user\<close> is made on an array,
  which is truthy also when empty, so the 404 is never raised.
\<close>

theorem all_on_empty_store_returns_empty_array:
  "all empty_db = (Inr (JArr []), empty_db)"
  by (simp add: all_def select_all_users_def example_defs)

lemma all_never_fails:
  "all d = (Inr (JArr (map JObj (fst (select_all_users d)))), d)"
  by (simp add: all_def select_all_users_def)

section \<open>Reading one user\<close>

text \<open>
  C7. On a store that satisfies its key constraints, \<^verbatim>\<open>get\<close> raises the 404
  \<^verbatim>\<open>No such user\<close> error exactly when no row has the username, and for the row
  \<open>u\<close> of that username it returns the object of the six columns username, first_name,
  last_name, phone, join_at and last_login_at of \<open>u\<close>, which has no key password.
\<close>

theorem get_fails_iff_absent_else_profile:
  assumes "wf_db d"
  shows "((\<exists>e. fst (get username d) = Inl e) \<longleftrightarrow> username \<notin> usernames d) \<and>
         (username \<notin> usernames d \<longrightarrow>
            get username d = (Inl (ExpressError (''No such user: '' @ username) 404), d)) \<and>
         (\<forall>u \<in> set (users d). u_username u = username \<longrightarrow>
            get username d =
              (Inr (JObj [(''username'', JStr (u_username u)),
                          (''first_name'', JStr (u_first_name u)),
                          (''last_name'', JStr (u_last_name u)),
                          (''phone'', JStr (u_phone u)),
                          (''join_at'', JTime (u_join_at u)),
                          (''last_login_at'', JTime (u_last_login_at u))]), d))"
proof -
  have absent: "get username d = (Inl (ExpressError (''No such user: '' @ username) 404), d)"
    if "username \<notin> usernames d"
    using users_named_absent[OF that]
    by (simp add: get_def select_user_def concat_map_if first_row_def)
  have present: "get username d =
              (Inr (JObj [(''username'', JStr (u_username u)),
                          (''first_name'', JStr (u_first_name u)),
                          (''last_name'', JStr (u_last_name u)),
                          (''phone'', JStr (u_phone u)),
                          (''join_at'', JTime (u_join_at u)),
                          (''last_login_at'', JTime (u_last_login_at u))]), d)"
    if "u \<in> set (users d)" and "u_username u = username" for u
    using users_named_unique[OF assms that(1)] that(2)
    by (simp add: get_def select_user_def concat_map_if first_row_def)
  have "(\<exists>e. fst (get username d) = Inl e) \<longleftrightarrow> username \<notin> usernames d"
  proof
    assume "\<exists>e. fst (get username d) = Inl e"
    show "username \<notin> usernames d"
    proof
      assume "username \<in> usernames d"
      then obtain u where "u \<in> set (users d)" "u_username u = username"
        by (auto simp: usernames_def)
      from present[OF this] \<open>\<exists>e. fst (get username d) = Inl e\<close> show False by simp
    qed
  next
    assume "username \<notin> usernames d"
    from absent[OF this] show "\<exists>e. fst (get username d) = Inl e" by simp
  qed
  with absent present show ?thesis by blast
qed

theorem get_fails_iff_absent_else_profile_witness:
  "wf_db example_db \<and> bob \<in> set (users example_db) \<and> ''carol'' \<notin> usernames example_db \<and>
   get ''carol'' example_db = (Inl (ExpressError ''No such user: carol'' 404), example_db) \<and>
   get ''bob'' example_db =
     (Inr (JObj [(''username'', JStr ''bob''),
                 (''first_name'', JStr ''Bob''),
                 (''last_name'', JStr ''Dobbs''),
                 (''phone'', JStr ''555-0002''),
                 (''join_at'', JTime 3),
                 (''last_login_at'', JTime 3)]), example_db)"
proof -
  have b: "bob \<in> set (users example_db)" "u_username bob = ''bob''"
    by (simp_all add: example_defs)
  have c: "''carol'' \<notin> usernames example_db"
    by (simp add: usernames_def example_defs)
  from get_fails_iff_absent_else_profile[OF wf_example_db, of "''carol''"] c
  have 1: "get ''carol'' example_db =
             (Inl (ExpressError ''No such user: carol'' 404), example_db)"
    by simp
  from get_fails_iff_absent_else_profile[OF wf_example_db, of "''bob''"] b
  have 2: "get ''bob'' example_db =
     (Inr (JObj [(''username'', JStr (u_username bob)),
                 (''first_name'', JStr (u_first_name bob)),
                 (''last_name'', JStr (u_last_name bob)),
                 (''phone'', JStr (u_phone bob)),
                 (''join_at'', JTime (u_join_at bob)),
                 (''last_login_at'', JTime (u_last_login_at bob))]), example_db)"
    by blast
  from 1 2 b c wf_example_db show ?thesis
    by (simp add: bob_def)
qed

section \<open>Reads leave the store as it is\<close>

text \<open>
  C9. \<^verbatim>\<open>messagesFrom\<close>, \<^verbatim>\<open>messagesTo\<close> and \<^verbatim>\<open>authenticate\<close> return the
  store they were given: every user row and every message row, with its
  \<^verbatim>\<open>read_at\<close>, is what it was before the call, whatever the call returns or raises.
\<close>

theorem reads_leave_store_unchanged:
  "snd (messagesFrom row_order username d) = d \<and>
   snd (messagesTo row_order username d) = d \<and>
   snd (authenticate bcrypt_compare username password d) = d"
  by (simp add: messagesFrom_def messagesTo_def authenticate_def
      select_messages_from_def select_messages_to_def select_credentials_def Let_def
      split: jsval.splits)

section \<open>Stamping the login time\<close>

lemma update_changes_nothing_when_absent:
  "username \<notin> usernames d \<Longrightarrow>
   map (\<lambda>u. if u_username u = username then u\<lparr>u_last_login_at := now\<rparr> else u) (users d) =
     users d"
  by (rule map_idI) (auto simp: usernames_def)

lemma users_named_nonempty:
  assumes "username \<in> usernames d"
  shows "\<exists>u us. filter (\<lambda>u. u_username u = username) (users d) = u # us \<and>
                 u_username u = username"
proof -
  from assms have "filter (\<lambda>u. u_username u = username) (users d) \<noteq> []"
    by (auto simp: usernames_def filter_empty_conv)
  then obtain u us where e: "filter (\<lambda>u. u_username u = username) (users d) = u # us"
    by (cases "filter (\<lambda>u. u_username u = username) (users d)") auto
  then have "u \<in> set (filter (\<lambda>u. u_username u = username) (users d))"
    by simp
  then have "u_username u = username"
    by simp
  with e show ?thesis by blast
qed

lemma updateLoginTimestamp_absent:
  assumes "username \<notin> usernames d"
  shows "updateLoginTimestamp now username d =
           (Inl (ExpressError (''No such user: '' @ username) 404), d)"
  using users_named_absent[OF assms] update_changes_nothing_when_absent[OF assms]
  by (simp add: updateLoginTimestamp_def update_last_login_def concat_map_if first_row_def)

lemma updateLoginTimestamp_present:
  assumes "username \<in> usernames d"
  shows "updateLoginTimestamp now username d =
           (Inr (JObj [(''username'', JStr username), (''last_login_at'', JTime now)]),
            d\<lparr>users := map (\<lambda>u. if u_username u = username
                                  then u\<lparr>u_last_login_at := now\<rparr> else u) (users d)\<rparr>)"
proof -
  from users_named_nonempty[OF assms] obtain u us
    where "filter (\<lambda>u. u_username u = username) (users d) = u # us"
      and "u_username u = username"
    by blast
  then show ?thesis
    by (simp add: updateLoginTimestamp_def update_last_login_def concat_map_if first_row_def)
qed

lemma usernames_after_update:
  "usernames (d\<lparr>users := map (\<lambda>u. if u_username u = username
                                     then u\<lparr>u_last_login_at := now\<rparr> else u) (users d)\<rparr>) =
     usernames d"
  by (auto simp: usernames_def image_iff)

text \<open>
  C6, as the code has it. \<^verbatim>\<open>updateLoginTimestamp\<close> raises the 404
  \<^verbatim>\<open>No such user\<close> error exactly when no row has the username, and then the store is
  as before. When a row has it, the call returns the object of username and
  last_login_at, the latter being the current time; in the store afterwards the rows of
  that username carry the current time as last_login_at, whatever they carried before,
  and every other row and every message is as before; and a second call, at any time
  \<open>now'\<close>, succeeds again.
\<close>

theorem updateLoginTimestamp_fails_iff_absent_else_sets_now:
  "((\<exists>e. fst (updateLoginTimestamp now username d) = Inl e) \<longleftrightarrow> username \<notin> usernames d) \<and>
   (username \<notin> usernames d \<longrightarrow>
      updateLoginTimestamp now username d =
        (Inl (ExpressError (''No such user: '' @ username) 404), d)) \<and>
   (username \<in> usernames d \<longrightarrow>
      fst (updateLoginTimestamp now username d) =
        Inr (JObj [(''username'', JStr username), (''last_login_at'', JTime now)]) \<and>
      messages (snd (updateLoginTimestamp now username d)) = messages d \<and>
      list_all2 (\<lambda>old new. new = (if u_username old = username
                                     then old\<lparr>u_last_login_at := now\<rparr> else old))
        (users d) (users (snd (updateLoginTimestamp now username d))) \<and>
      fst (updateLoginTimestamp now' username (snd (updateLoginTimestamp now username d))) =
        Inr (JObj [(''username'', JStr username), (''last_login_at'', JTime now')]))"
proof (intro conjI impI)
  show "(\<exists>e. fst (updateLoginTimestamp now username d) = Inl e) \<longleftrightarrow> username \<notin> usernames d"
    using updateLoginTimestamp_absent[of username d now]
      updateLoginTimestamp_present[of username d now]
    by (cases "username \<in> usernames d") simp_all
next
  assume "username \<notin> usernames d"
  then show "updateLoginTimestamp now username d =
               (Inl (ExpressError (''No such user: '' @ username) 404), d)"
    by (rule updateLoginTimestamp_absent)
next
  assume p: "username \<in> usernames d"
  show "fst (updateLoginTimestamp now username d) =
          Inr (JObj [(''username'', JStr username), (''last_login_at'', JTime now)])"
    by (simp add: updateLoginTimestamp_present[OF p])
  show "messages (snd (updateLoginTimestamp now username d)) = messages d"
    by (simp add: updateLoginTimestamp_present[OF p])
  show "list_all2 (\<lambda>old new. new = (if u_username old = username
                                       then old\<lparr>u_last_login_at := now\<rparr> else old))
          (users d) (users (snd (updateLoginTimestamp now username d)))"
    by (simp add: updateLoginTimestamp_present[OF p] list_all2_map2 list_all2_same)
  have "username \<in> usernames (snd (updateLoginTimestamp now username d))"
    using p by (simp add: updateLoginTimestamp_present[OF p] usernames_after_update)
  then show "fst (updateLoginTimestamp now' username
                    (snd (updateLoginTimestamp now username d))) =
               Inr (JObj [(''username'', JStr username), (''last_login_at'', JTime now')])"
    by (simp add: updateLoginTimestamp_present)
qed

theorem updateLoginTimestamp_fails_iff_absent_else_sets_now_witness:
  "''carol'' \<notin> usernames example_db \<and> ''alice'' \<in> usernames example_db \<and>
   updateLoginTimestamp 5 ''carol'' example_db =
     (Inl (ExpressError ''No such user: carol'' 404), example_db) \<and>
   updateLoginTimestamp 5 ''alice'' example_db =
     (Inr (JObj [(''username'', JStr ''alice''), (''last_login_at'', JTime 5)]),
      \<lparr>users = [alice\<lparr>u_last_login_at := 5\<rparr>, bob], messages = [hi]\<rparr>) \<and>
   fst (updateLoginTimestamp 6 ''alice'' (snd (updateLoginTimestamp 5 ''alice'' example_db))) =
     Inr (JObj [(''username'', JStr ''alice''), (''last_login_at'', JTime 6)])"
proof -
  have c: "''carol'' \<notin> usernames example_db" and a: "''alice'' \<in> usernames example_db"
    by (simp_all add: usernames_def example_defs)
  from updateLoginTimestamp_fails_iff_absent_else_sets_now[of 5 "''carol''" example_db 6] c
  have 1: "updateLoginTimestamp 5 ''carol'' example_db =
             (Inl (ExpressError ''No such user: carol'' 404), example_db)"
    by simp
  from updateLoginTimestamp_fails_iff_absent_else_sets_now[of 5 "''alice''" example_db 6] a
  have 2: "fst (updateLoginTimestamp 5 ''alice'' example_db) =
             Inr (JObj [(''username'', JStr ''alice''), (''last_login_at'', JTime 5)])"
    and 3: "messages (snd (updateLoginTimestamp 5 ''alice'' example_db)) = messages example_db"
    and 4: "list_all2 (\<lambda>old new. new = (if u_username old = ''alice''
                                       then old\<lparr>u_last_login_at := 5\<rparr> else old))
          (users example_db) (users (snd (updateLoginTimestamp 5 ''alice'' example_db)))"
    and 5: "fst (updateLoginTimestamp 6 ''alice''
                   (snd (updateLoginTimestamp 5 ''alice'' example_db))) =
              Inr (JObj [(''username'', JStr ''alice''), (''last_login_at'', JTime 6)])"
    by blast+
  from 4 have "users (snd (updateLoginTimestamp 5 ''alice'' example_db)) =
                 [alice\<lparr>u_last_login_at := 5\<rparr>, bob]"
    by (simp add: example_db_def list_all2_Cons1 alice_def bob_def)
  with 3 have "snd (updateLoginTimestamp 5 ''alice'' example_db) =
                 \<lparr>users = [alice\<lparr>u_last_login_at := 5\<rparr>, bob], messages = [hi]\<rparr>"
    by (simp add: example_db_def db.equality)
  with 2 have 6: "updateLoginTimestamp 5 ''alice'' example_db =
     (Inr (JObj [(''username'', JStr ''alice''), (''last_login_at'', JTime 5)]),
      \<lparr>users = [alice\<lparr>u_last_login_at := 5\<rparr>, bob], messages = [hi]\<rparr>)"
    by (simp add: prod_eq_iff)
  from c a 1 5 6 show ?thesis by simp
qed

text \<open>
  C6 as stated fails: the new value need not be at least the old one. The
  \<^verbatim>\<open>UPDATE\<close> does not read the old stamp; at the time 1, the stamps 2 of alice and 3 of
  bob become 1 and 3.
\<close>

theorem updateLoginTimestamp_stamp_decreases_counterexample:
  "map u_last_login_at (users example_db) = [2, 3] \<and>
   fst (updateLoginTimestamp 1 ''alice'' example_db) =
     Inr (JObj [(''username'', JStr ''alice''), (''last_login_at'', JTime 1)]) \<and>
   map u_last_login_at (users (snd (updateLoginTimestamp 1 ''alice'' example_db))) = [1, 3]"
  by (simp add: updateLoginTimestamp_def update_last_login_def first_row_def example_defs)

section \<open>The loop of the message lists\<close>

lemma push_loop_drop: "push_loop mk msgs i acc = acc @ map mk (drop i msgs)"
proof (induction mk msgs i acc rule: push_loop.induct)
  case (1 mk msgs i acc)
  show ?case
  proof (cases "i < length msgs")
    case True
    then have "drop i msgs = msgs ! i # drop (Suc i) msgs"
      by (simp add: Cons_nth_drop_Suc)
    with True "1.IH" show ?thesis
      by (subst push_loop.simps) simp
  next
    case False
    then show ?thesis
      by (subst push_loop.simps) simp
  qed
qed

lemma push_loop_map: "push_loop mk msgs 0 [] = map mk msgs"
  by (simp add: push_loop_drop)

section \<open>The joins of the message queries\<close>

lemma joined_users_eq:
  "joined_users m d =
     List.product (filter (\<lambda>f. u_username f = m_from_username m) (users d))
                  (filter (\<lambda>t. u_username t = m_to_username m) (users d))"
proof -
  have inner: "concat (map (\<lambda>t. if m_to_username m = u_username t then [(f, t)] else []) us) =
               map (Pair f) (filter (\<lambda>t. u_username t = m_to_username m) us)" for f us
    by (induction us) auto
  have outer: "concat (map (\<lambda>f. if m_from_username m = u_username f then map (Pair f) ts else []) us) =
               List.product (filter (\<lambda>f. u_username f = m_from_username m) us) ts" for ts us
    by (induction us) auto
  show ?thesis
    unfolding joined_users_def inner outer by (rule refl)
qed

lemma joined_users_wf:
  assumes "wf_db d" "m \<in> set (messages d)"
  shows "\<exists>f t. joined_users m d = [(f, t)] \<and> f \<in> set (users d) \<and> t \<in> set (users d) \<and>
               u_username f = m_from_username m \<and> u_username t = m_to_username m"
proof -
  from assms have "m_from_username m \<in> usernames d" "m_to_username m \<in> usernames d"
    by (auto simp: wf_db_def list_all_iff)
  then obtain f t where f: "f \<in> set (users d)" "u_username f = m_from_username m"
    and t: "t \<in> set (users d)" "u_username t = m_to_username m"
    by (auto simp: usernames_def)
  from users_named_unique[OF assms(1) f(1)] users_named_unique[OF assms(1) t(1)] f t
  have "joined_users m d = [(f, t)]"
    by (simp add: joined_users_eq)
  with f t show ?thesis by blast
qed

lemma product_Nil_right: "List.product xs [] = []"
  by (induction xs) simp_all

lemma joined_users_absent:
  "m_from_username m \<notin> usernames d \<or> m_to_username m \<notin> usernames d \<Longrightarrow> joined_users m d = []"
  by (auto simp: joined_users_eq users_named_absent product_Nil_right)

lemma joined_users_set:
  "(f, t) \<in> set (joined_users m d) \<longleftrightarrow>
     f \<in> set (users d) \<and> t \<in> set (users d) \<and>
     m_from_username m = u_username f \<and> m_to_username m = u_username t"
  by (auto simp: joined_users_eq)

lemma mset_in_store_order: "mset (in_store_order row_order rows) = mset rows"
  by (simp add: in_store_order_def)

lemma set_in_store_order: "set (in_store_order row_order rows) = set rows"
  using mset_in_store_order[of row_order rows] by (rule mset_eq_setD)

lemma select_from_set:
  "r \<in> set (fst (select_messages_from row_order username d)) \<longleftrightarrow>
     (\<exists>m \<in> set (messages d). \<exists>(f, t) \<in> set (joined_users m d).
         m_from_username m = username \<and> r = joined_row m t)"
  by (auto simp: select_messages_from_def set_in_store_order)

lemma select_to_set:
  "r \<in> set (fst (select_messages_to row_order username d)) \<longleftrightarrow>
     (\<exists>m \<in> set (messages d). \<exists>(f, t) \<in> set (joined_users m d).
         m_to_username m = username \<and> r = joined_row m f)"
  by (auto simp: select_messages_to_def set_in_store_order)

lemma messagesFrom_eq:
  "messagesFrom row_order username d =
     (if fst (select_messages_from row_order username d) = []
      then (Inl (ExpressError (''No messages from this user: '' @ username) 404), d)
      else (Inr (JArr (map mess_from (fst (select_messages_from row_order username d)))), d))"
proof -
  obtain rows where e: "select_messages_from row_order username d = (rows, d)"
    by (simp add: select_messages_from_def)
  show ?thesis
    unfolding messagesFrom_def e
    by (cases rows) (simp_all add: first_row_def push_loop_map)
qed

lemma messagesTo_eq:
  "messagesTo row_order username d =
     (if fst (select_messages_to row_order username d) = []
      then (Inl (ExpressError (''No messages to this user: '' @ username) 404), d)
      else (Inr (JArr (map mess_to (fst (select_messages_to row_order username d)))), d))"
proof -
  obtain rows where e: "select_messages_to row_order username d = (rows, d)"
    by (simp add: select_messages_to_def)
  show ?thesis
    unfolding messagesTo_def e
    by (cases rows) (simp_all add: first_row_def push_loop_map)
qed

lemma no_member_Nil: "(\<And>r. r \<notin> set xs) \<Longrightarrow> xs = []"
  by (cases xs) auto

lemma messages_of_absent_user:
  assumes "username \<notin> usernames d"
  shows "messagesFrom row_order username d =
           (Inl (ExpressError (''No messages from this user: '' @ username) 404), d) \<and>
         messagesTo row_order username d =
           (Inl (ExpressError (''No messages to this user: '' @ username) 404), d)"
proof -
  have "r \<notin> set (fst (select_messages_from row_order username d))" for r
    using assms by (auto simp: select_from_set joined_users_set usernames_def image_iff)
  then have "fst (select_messages_from row_order username d) = []"
    by (rule no_member_Nil)
  moreover have "r \<notin> set (fst (select_messages_to row_order username d))" for r
    using assms by (auto simp: select_to_set joined_users_set usernames_def image_iff)
  then have "fst (select_messages_to row_order username d) = []"
    by (rule no_member_Nil)
  ultimately show ?thesis
    by (simp add: messagesFrom_eq messagesTo_eq)
qed


lemma mess_from_joined_row:
  "mess_from (joined_row m t) =
     JObj [(''id'', JNum (m_id m)),
           (''body'', JStr (m_body m)),
           (''sent_at'', JTime (m_sent_at m)),
           (''read_at'', null_or_time (m_read_at m)),
           (''to_user'', JObj [(''username'', JStr (u_username t)),
                              (''first_name'', JStr (u_first_name t)),
                              (''last_name'', JStr (u_last_name t)),
                              (''phone'', JStr (u_phone t))])]"
  by (simp add: mess_from_def joined_row_def field_def)

lemma mess_to_joined_row:
  "mess_to (joined_row m f) =
     JObj [(''id'', JNum (m_id m)),
           (''body'', JStr (m_body m)),
           (''sent_at'', JTime (m_sent_at m)),
           (''read_at'', null_or_time (m_read_at m)),
           (''from_user'', JObj [(''username'', JStr (u_username f)),
                                (''first_name'', JStr (u_first_name f)),
                                (''last_name'', JStr (u_last_name f)),
                                (''phone'', JStr (u_phone f))])]"
  by (simp add: mess_to_def joined_row_def field_def)

lemma select_from_matching:
  assumes "wf_db d" and "set ms \<subseteq> set (messages d)"
  shows "list_all2 (\<lambda>m r. \<exists>t \<in> set (users d). u_username t = m_to_username m \<and> r = joined_row m t)
           (filter (\<lambda>m. m_from_username m = username) ms)
           [joined_row m t. m \<leftarrow> ms, (f, t) \<leftarrow> joined_users m d, m_from_username m = username]"
  using assms(2)
proof (induction ms)
  case Nil
  then show ?case by simp
next
  case (Cons m ms)
  then have "m \<in> set (messages d)" by simp
  from joined_users_wf[OF assms(1) this] obtain f t
    where "joined_users m d = [(f, t)]" "t \<in> set (users d)" "u_username t = m_to_username m"
    by blast
  with Cons show ?case by auto
qed

lemma select_to_matching:
  assumes "wf_db d" and "set ms \<subseteq> set (messages d)"
  shows "list_all2 (\<lambda>m r. \<exists>f \<in> set (users d). u_username f = m_from_username m \<and> r = joined_row m f)
           (filter (\<lambda>m. m_to_username m = username) ms)
           [joined_row m f. m \<leftarrow> ms, (f, t) \<leftarrow> joined_users m d, m_to_username m = username]"
  using assms(2)
proof (induction ms)
  case Nil
  then show ?case by simp
next
  case (Cons m ms)
  then have "m \<in> set (messages d)" by simp
  from joined_users_wf[OF assms(1) this] obtain f t
    where "joined_users m d = [(f, t)]" "f \<in> set (users d)" "u_username f = m_from_username m"
    by blast
  with Cons show ?case by auto
qed

lemma list_all2_reorder_right:
  assumes "list_all2 R xs ys" and "mset ys' = mset ys"
  shows "\<exists>xs'. mset xs' = mset xs \<and> list_all2 R xs' ys'"
proof -
  from assms(1) have "list_all2 (\<lambda>y x. R x y) ys xs"
    by (simp add: list_all2_conv_all_nth)
  from list_all2_reorder_left_invariance[OF this assms(2)]
  obtain xs' where "list_all2 (\<lambda>y x. R x y) ys' xs'" and m: "mset xs' = mset xs"
    by blast
  then have "list_all2 R xs' ys'"
    by (simp add: list_all2_conv_all_nth)
  with m show ?thesis by blast
qed

lemma messagesFrom_matching:
  assumes "wf_db d"
  shows "\<exists>xs. mset xs = mset (filter (\<lambda>m. m_from_username m = username) (messages d)) \<and>
           list_all2 (\<lambda>m r. \<exists>t \<in> set (users d). u_username t = m_to_username m \<and>
                              r = joined_row m t)
             xs (fst (select_messages_from row_order username d))"
proof -
  have "fst (select_messages_from row_order username d) =
          in_store_order row_order
            [joined_row m t.
               m \<leftarrow> messages d, (f, t) \<leftarrow> joined_users m d, m_from_username m = username]"
    by (simp add: select_messages_from_def)
  with list_all2_reorder_right[OF select_from_matching[OF assms subset_refl, of username]
      mset_in_store_order[of row_order]]
  show ?thesis by simp
qed

lemma messagesTo_matching:
  assumes "wf_db d"
  shows "\<exists>xs. mset xs = mset (filter (\<lambda>m. m_to_username m = username) (messages d)) \<and>
           list_all2 (\<lambda>m r. \<exists>f \<in> set (users d). u_username f = m_from_username m \<and>
                              r = joined_row m f)
             xs (fst (select_messages_to row_order username d))"
proof -
  have "fst (select_messages_to row_order username d) =
          in_store_order row_order
            [joined_row m f.
               m \<leftarrow> messages d, (f, t) \<leftarrow> joined_users m d, m_to_username m = username]"
    by (simp add: select_messages_to_def)
  with list_all2_reorder_right[OF select_to_matching[OF assms subset_refl, of username]
      mset_in_store_order[of row_order]]
  show ?thesis by simp
qed

lemma messagesFrom_fails_iff_none:
  assumes "wf_db d"
  shows "((\<exists>e. fst (messagesFrom row_order username d) = Inl e) \<longleftrightarrow>
            (\<forall>m \<in> set (messages d). m_from_username m \<noteq> username)) \<and>
         ((\<forall>m \<in> set (messages d). m_from_username m \<noteq> username) \<longrightarrow>
            messagesFrom row_order username d =
              (Inl (ExpressError (''No messages from this user: '' @ username) 404), d)) \<and>
         ((\<exists>m \<in> set (messages d). m_from_username m = username) \<longrightarrow>
            (\<exists>ys xs. messagesFrom row_order username d = (Inr (JArr ys), d) \<and> ys \<noteq> [] \<and>
               mset xs = mset (filter (\<lambda>m. m_from_username m = username) (messages d)) \<and>
               list_all2 (\<lambda>m y. \<exists>t \<in> set (users d). u_username t = m_to_username m \<and>
                                  y = mess_from (joined_row m t)) xs ys))"
proof -
  let ?rows = "fst (select_messages_from row_order username d)"
  let ?sent = "filter (\<lambda>m. m_from_username m = username) (messages d)"
  from messagesFrom_matching[OF assms, of username row_order]
  obtain xs where xs: "mset xs = mset ?sent"
    and R: "list_all2 (\<lambda>m r. \<exists>t \<in> set (users d). u_username t = m_to_username m \<and>
                               r = joined_row m t) xs ?rows"
    by blast
  have "length ?sent = length xs"
    using xs by (metis mset_eq_length)
  moreover have "length xs = length ?rows"
    using R by (rule list_all2_lengthD)
  ultimately have len: "length ?sent = length ?rows"
    by simp
  have empty: "?rows = [] \<longleftrightarrow> (\<forall>m \<in> set (messages d). m_from_username m \<noteq> username)"
  proof -
    have "?rows = [] \<longleftrightarrow> ?sent = []" using len by auto
    then show ?thesis by (simp add: filter_empty_conv)
  qed
  have all: "list_all2 (\<lambda>m y. \<exists>t \<in> set (users d). u_username t = m_to_username m \<and>
                                  y = mess_from (joined_row m t)) xs (map mess_from ?rows)"
    using R by (auto simp: list_all2_map2 elim!: list_all2_mono)
  show ?thesis
  proof (intro conjI impI)
    show "(\<exists>e. fst (messagesFrom row_order username d) = Inl e) \<longleftrightarrow>
            (\<forall>m \<in> set (messages d). m_from_username m \<noteq> username)"
      using empty by (simp add: messagesFrom_eq)
    show "messagesFrom row_order username d =
            (Inl (ExpressError (''No messages from this user: '' @ username) 404), d)"
      if "\<forall>m \<in> set (messages d). m_from_username m \<noteq> username"
      using that empty by (simp add: messagesFrom_eq)
    show "\<exists>ys xs. messagesFrom row_order username d = (Inr (JArr ys), d) \<and> ys \<noteq> [] \<and>
               mset xs = mset (filter (\<lambda>m. m_from_username m = username) (messages d)) \<and>
               list_all2 (\<lambda>m y. \<exists>t \<in> set (users d). u_username t = m_to_username m \<and>
                                  y = mess_from (joined_row m t)) xs ys"
      if "\<exists>m \<in> set (messages d). m_from_username m = username"
    proof -
      from that empty have ne: "?rows \<noteq> []" by blast
      then have "messagesFrom row_order username d = (Inr (JArr (map mess_from ?rows)), d)"
        by (simp add: messagesFrom_eq)
      moreover from ne have "map mess_from ?rows \<noteq> []" by simp
      ultimately show ?thesis using xs all by blast
    qed
  qed
qed

lemma messagesTo_fails_iff_none:
  assumes "wf_db d"
  shows "((\<exists>e. fst (messagesTo row_order username d) = Inl e) \<longleftrightarrow>
            (\<forall>m \<in> set (messages d). m_to_username m \<noteq> username)) \<and>
         ((\<forall>m \<in> set (messages d). m_to_username m \<noteq> username) \<longrightarrow>
            messagesTo row_order username d =
              (Inl (ExpressError (''No messages to this user: '' @ username) 404), d)) \<and>
         ((\<exists>m \<in> set (messages d). m_to_username m = username) \<longrightarrow>
            (\<exists>ys xs. messagesTo row_order username d = (Inr (JArr ys), d) \<and> ys \<noteq> [] \<and>
               mset xs = mset (filter (\<lambda>m. m_to_username m = username) (messages d)) \<and>
               list_all2 (\<lambda>m y. \<exists>f \<in> set (users d). u_username f = m_from_username m \<and>
                                  y = mess_to (joined_row m f)) xs ys))"
proof -
  let ?rows = "fst (select_messages_to row_order username d)"
  let ?received = "filter (\<lambda>m. m_to_username m = username) (messages d)"
  from messagesTo_matching[OF assms, of username row_order]
  obtain xs where xs: "mset xs = mset ?received"
    and R: "list_all2 (\<lambda>m r. \<exists>f \<in> set (users d). u_username f = m_from_username m \<and>
                               r = joined_row m f) xs ?rows"
    by blast
  have "length ?received = length xs"
    using xs by (metis mset_eq_length)
  moreover have "length xs = length ?rows"
    using R by (rule list_all2_lengthD)
  ultimately have len: "length ?received = length ?rows"
    by simp
  have empty: "?rows = [] \<longleftrightarrow> (\<forall>m \<in> set (messages d). m_to_username m \<noteq> username)"
  proof -
    have "?rows = [] \<longleftrightarrow> ?received = []" using len by auto
    then show ?thesis by (simp add: filter_empty_conv)
  qed
  have all: "list_all2 (\<lambda>m y. \<exists>f \<in> set (users d). u_username f = m_from_username m \<and>
                                  y = mess_to (joined_row m f)) xs (map mess_to ?rows)"
    using R by (auto simp: list_all2_map2 elim!: list_all2_mono)
  show ?thesis
  proof (intro conjI impI)
    show "(\<exists>e. fst (messagesTo row_order username d) = Inl e) \<longleftrightarrow>
            (\<forall>m \<in> set (messages d). m_to_username m \<noteq> username)"
      using empty by (simp add: messagesTo_eq)
    show "messagesTo row_order username d =
            (Inl (ExpressError (''No messages to this user: '' @ username) 404), d)"
      if "\<forall>m \<in> set (messages d). m_to_username m \<noteq> username"
      using that empty by (simp add: messagesTo_eq)
    show "\<exists>ys xs. messagesTo row_order username d = (Inr (JArr ys), d) \<and> ys \<noteq> [] \<and>
               mset xs = mset (filter (\<lambda>m. m_to_username m = username) (messages d)) \<and>
               list_all2 (\<lambda>m y. \<exists>f \<in> set (users d). u_username f = m_from_username m \<and>
                                  y = mess_to (joined_row m f)) xs ys"
      if "\<exists>m \<in> set (messages d). m_to_username m = username"
    proof -
      from that empty have ne: "?rows \<noteq> []" by blast
      then have "messagesTo row_order username d = (Inr (JArr (map mess_to ?rows)), d)"
        by (simp add: messagesTo_eq)
      moreover from ne have "map mess_to ?rows \<noteq> []" by simp
      ultimately show ?thesis using xs all by blast
    qed
  qed
qed

lemma message_by_id:
  assumes "wf_db d" "m \<in> set (messages d)" "m' \<in> set (messages d)" "m_id m' = m_id m"
  shows "m' = m"
proof -
  from assms(1) have "inj_on m_id (set (messages d))"
    by (simp add: wf_db_def distinct_map)
  with assms(2-4) show ?thesis by (auto dest: inj_onD)
qed

lemma messagesFrom_entry:
  assumes "fst (messagesFrom row_order username d) = Inr (JArr ys)" "y \<in> set ys"
  shows "\<exists>m' \<in> set (messages d). \<exists>t \<in> set (users d).
           m_from_username m' = username \<and> y = mess_from (joined_row m' t)"
proof -
  from assms(1) have ys: "ys = map mess_from (fst (select_messages_from row_order username d))"
    by (simp add: messagesFrom_eq split: if_splits)
  with assms(2) obtain r where "r \<in> set (fst (select_messages_from row_order username d))" "y = mess_from r"
    by auto
  then show ?thesis
    by (fastforce simp: select_from_set joined_users_set)
qed

lemma messagesTo_entry:
  assumes "fst (messagesTo row_order username d) = Inr (JArr ys)" "y \<in> set ys"
  shows "\<exists>m' \<in> set (messages d). \<exists>f \<in> set (users d).
           m_to_username m' = username \<and> y = mess_to (joined_row m' f)"
proof -
  from assms(1) have ys: "ys = map mess_to (fst (select_messages_to row_order username d))"
    by (simp add: messagesTo_eq split: if_splits)
  with assms(2) obtain r where "r \<in> set (fst (select_messages_to row_order username d))" "y = mess_to r"
    by auto
  then show ?thesis
    by (fastforce simp: select_to_set joined_users_set)
qed

lemma sent_appears:
  assumes "m \<in> set (messages d)" "a \<in> set (users d)" "b \<in> set (users d)"
    "u_username a = m_from_username m" "u_username b = m_to_username m"
  shows "\<exists>ys. messagesFrom row_order (m_from_username m) d = (Inr (JArr ys), d) \<and>
              mess_from (joined_row m b) \<in> set ys"
proof -
  from assms have "joined_row m b \<in> set (fst (select_messages_from row_order (m_from_username m) d))"
    by (force simp: select_from_set joined_users_set)
  moreover from this have "fst (select_messages_from row_order (m_from_username m) d) \<noteq> []"
    by auto
  ultimately show ?thesis
    by (simp add: messagesFrom_eq)
qed

lemma received_appears:
  assumes "m \<in> set (messages d)" "a \<in> set (users d)" "b \<in> set (users d)"
    "u_username a = m_from_username m" "u_username b = m_to_username m"
  shows "\<exists>ys. messagesTo row_order (m_to_username m) d = (Inr (JArr ys), d) \<and>
              mess_to (joined_row m a) \<in> set ys"
proof -
  from assms have "joined_row m a \<in> set (fst (select_messages_to row_order (m_to_username m) d))"
    by (force simp: select_to_set joined_users_set)
  moreover from this have "fst (select_messages_to row_order (m_to_username m) d) \<noteq> []"
    by auto
  ultimately show ?thesis
    by (simp add: messagesTo_eq)
qed

section \<open>The message lists\<close>

text \<open>
  C5. On a store that satisfies its key constraints, \<^verbatim>\<open>messagesFrom\<close> raises the 404
  \<^verbatim>\<open>No messages from this user\<close> error exactly when no message has the username as
  \<^verbatim>\<open>from_username\<close>; otherwise it returns a non-empty array that has, in the order
  in which the store returned the rows, one entry for each message sent by the username,
  built from that message and the row of its recipient: the entries are those of the
  messages of the username up to their order. \<^verbatim>\<open>messagesTo\<close> does the same with
  \<^verbatim>\<open>to_username\<close> and the row of the sender.
\<close>

theorem messages_fail_iff_none_else_matching:
  assumes "wf_db d"
  shows "(((\<exists>e. fst (messagesFrom row_order username d) = Inl e) \<longleftrightarrow>
            (\<forall>m \<in> set (messages d). m_from_username m \<noteq> username)) \<and>
          ((\<forall>m \<in> set (messages d). m_from_username m \<noteq> username) \<longrightarrow>
             messagesFrom row_order username d =
               (Inl (ExpressError (''No messages from this user: '' @ username) 404), d)) \<and>
          ((\<exists>m \<in> set (messages d). m_from_username m = username) \<longrightarrow>
             (\<exists>ys xs. messagesFrom row_order username d = (Inr (JArr ys), d) \<and> ys \<noteq> [] \<and>
                mset xs = mset (filter (\<lambda>m. m_from_username m = username) (messages d)) \<and>
                list_all2 (\<lambda>m y. \<exists>t \<in> set (users d). u_username t = m_to_username m \<and>
                                   y = mess_from (joined_row m t)) xs ys))) \<and>
         (((\<exists>e. fst (messagesTo row_order username d) = Inl e) \<longleftrightarrow>
            (\<forall>m \<in> set (messages d). m_to_username m \<noteq> username)) \<and>
          ((\<forall>m \<in> set (messages d). m_to_username m \<noteq> username) \<longrightarrow>
             messagesTo row_order username d =
               (Inl (ExpressError (''No messages to this user: '' @ username) 404), d)) \<and>
          ((\<exists>m \<in> set (messages d). m_to_username m = username) \<longrightarrow>
             (\<exists>ys xs. messagesTo row_order username d = (Inr (JArr ys), d) \<and> ys \<noteq> [] \<and>
                mset xs = mset (filter (\<lambda>m. m_to_username m = username) (messages d)) \<and>
                list_all2 (\<lambda>m y. \<exists>f \<in> set (users d). u_username f = m_from_username m \<and>
                                   y = mess_to (joined_row m f)) xs ys)))"
proof (rule conjI)
  show "((\<exists>e. fst (messagesFrom row_order username d) = Inl e) \<longleftrightarrow>
            (\<forall>m \<in> set (messages d). m_from_username m \<noteq> username)) \<and>
          ((\<forall>m \<in> set (messages d). m_from_username m \<noteq> username) \<longrightarrow>
             messagesFrom row_order username d =
               (Inl (ExpressError (''No messages from this user: '' @ username) 404), d)) \<and>
          ((\<exists>m \<in> set (messages d). m_from_username m = username) \<longrightarrow>
             (\<exists>ys xs. messagesFrom row_order username d = (Inr (JArr ys), d) \<and> ys \<noteq> [] \<and>
                mset xs = mset (filter (\<lambda>m. m_from_username m = username) (messages d)) \<and>
                list_all2 (\<lambda>m y. \<exists>t \<in> set (users d). u_username t = m_to_username m \<and>
                                   y = mess_from (joined_row m t)) xs ys))"
    by (rule messagesFrom_fails_iff_none[OF assms])
next
  show "((\<exists>e. fst (messagesTo row_order username d) = Inl e) \<longleftrightarrow>
            (\<forall>m \<in> set (messages d). m_to_username m \<noteq> username)) \<and>
          ((\<forall>m \<in> set (messages d). m_to_username m \<noteq> username) \<longrightarrow>
             messagesTo row_order username d =
               (Inl (ExpressError (''No messages to this user: '' @ username) 404), d)) \<and>
          ((\<exists>m \<in> set (messages d). m_to_username m = username) \<longrightarrow>
             (\<exists>ys xs. messagesTo row_order username d = (Inr (JArr ys), d) \<and> ys \<noteq> [] \<and>
                mset xs = mset (filter (\<lambda>m. m_to_username m = username) (messages d)) \<and>
                list_all2 (\<lambda>m y. \<exists>f \<in> set (users d). u_username f = m_from_username m \<and>
                                   y = mess_to (joined_row m f)) xs ys))"
    by (rule messagesTo_fails_iff_none[OF assms])
qed

lemma messagesFrom_chat_db:
  "messagesFrom rev ''alice'' chat_db =
     (Inr (JArr [JObj [(''id'', JNum 4),
                       (''body'', JStr ''bye''),
                       (''sent_at'', JTime 7),
                       (''read_at'', JNull),
                       (''to_user'', JObj [(''username'', JStr ''bob''),
                                          (''first_name'', JStr ''Bob''),
                                          (''last_name'', JStr ''Dobbs''),
                                          (''phone'', JStr ''555-0002'')])],
                 JObj [(''id'', JNum 1),
                       (''body'', JStr ''hi''),
                       (''sent_at'', JTime 4),
                       (''read_at'', JNull),
                       (''to_user'', JObj [(''username'', JStr ''bob''),
                                          (''first_name'', JStr ''Bob''),
                                          (''last_name'', JStr ''Dobbs''),
                                          (''phone'', JStr ''555-0002'')])]]),
      chat_db)"
proof -
  have "fst (select_messages_from rev ''alice'' chat_db) =
          [joined_row bye bob, joined_row hi bob]"
    by (simp add: select_messages_from_def in_store_order_def joined_users_def
        chat_db_def alice_def bob_def hi_def hello_def bye_def)
  then show ?thesis
    by (simp add: messagesFrom_eq mess_from_joined_row bob_def hi_def bye_def)
qed

lemma messagesTo_chat_db:
  "messagesTo rev ''alice'' chat_db =
     (Inr (JArr [JObj [(''id'', JNum 2),
                       (''body'', JStr ''hello''),
                       (''sent_at'', JTime 5),
                       (''read_at'', JTime 6),
                       (''from_user'', JObj [(''username'', JStr ''bob''),
                                            (''first_name'', JStr ''Bob''),
                                            (''last_name'', JStr ''Dobbs''),
                                            (''phone'', JStr ''555-0002'')])]]),
      chat_db)"
proof -
  have "fst (select_messages_to rev ''alice'' chat_db) = [joined_row hello bob]"
    by (simp add: select_messages_to_def in_store_order_def joined_users_def
        chat_db_def alice_def bob_def hi_def hello_def bye_def)
  then show ?thesis
    by (simp add: messagesTo_eq mess_to_joined_row bob_def hello_def)
qed

theorem messages_fail_iff_none_else_matching_witness:
  "wf_db chat_db \<and>
   list_ex (\<lambda>m. m_from_username m = ''alice'') (messages chat_db) \<and>
   list_ex (\<lambda>m. m_to_username m = ''alice'') (messages chat_db) \<and>
   list_all (\<lambda>m. m_from_username m \<noteq> ''carol'') (messages chat_db) \<and>
   list_all (\<lambda>m. m_to_username m \<noteq> ''carol'') (messages chat_db) \<and>
   messagesFrom rev ''alice'' chat_db =
     (Inr (JArr [JObj [(''id'', JNum 4),
                       (''body'', JStr ''bye''),
                       (''sent_at'', JTime 7),
                       (''read_at'', JNull),
                       (''to_user'', JObj [(''username'', JStr ''bob''),
                                          (''first_name'', JStr ''Bob''),
                                          (''last_name'', JStr ''Dobbs''),
                                          (''phone'', JStr ''555-0002'')])],
                 JObj [(''id'', JNum 1),
                       (''body'', JStr ''hi''),
                       (''sent_at'', JTime 4),
                       (''read_at'', JNull),
                       (''to_user'', JObj [(''username'', JStr ''bob''),
                                          (''first_name'', JStr ''Bob''),
                                          (''last_name'', JStr ''Dobbs''),
                                          (''phone'', JStr ''555-0002'')])]]),
      chat_db) \<and>
   messagesTo rev ''alice'' chat_db =
     (Inr (JArr [JObj [(''id'', JNum 2),
                       (''body'', JStr ''hello''),
                       (''sent_at'', JTime 5),
                       (''read_at'', JTime 6),
                       (''from_user'', JObj [(''username'', JStr ''bob''),
                                            (''first_name'', JStr ''Bob''),
                                            (''last_name'', JStr ''Dobbs''),
                                            (''phone'', JStr ''555-0002'')])]]),
      chat_db) \<and>
   messagesFrom rev ''carol'' chat_db =
     (Inl (ExpressError ''No messages from this user: carol'' 404), chat_db) \<and>
   messagesTo rev ''carol'' chat_db =
     (Inl (ExpressError ''No messages to this user: carol'' 404), chat_db)"
proof -
  have s: "\<exists>m \<in> set (messages chat_db). m_from_username m = ''alice''"
    and r: "\<exists>m \<in> set (messages chat_db). m_to_username m = ''alice''"
    and ns: "\<forall>m \<in> set (messages chat_db). m_from_username m \<noteq> ''carol''"
    and nr: "\<forall>m \<in> set (messages chat_db). m_to_username m \<noteq> ''carol''"
    by (simp_all add: chat_db_def hi_def hello_def bye_def)
  note alice' = messages_fail_iff_none_else_matching[OF wf_chat_db, of rev "''alice''"]
  note carol = messages_fail_iff_none_else_matching[OF wf_chat_db, of rev "''carol''"]
  from alice' s obtain ys where "messagesFrom rev ''alice'' chat_db = (Inr (JArr ys), chat_db)"
    by blast
  with messagesFrom_chat_db have 1: "messagesFrom rev ''alice'' chat_db =
     (Inr (JArr [JObj [(''id'', JNum 4),
                       (''body'', JStr ''bye''),
                       (''sent_at'', JTime 7),
                       (''read_at'', JNull),
                       (''to_user'', JObj [(''username'', JStr ''bob''),
                                          (''first_name'', JStr ''Bob''),
                                          (''last_name'', JStr ''Dobbs''),
                                          (''phone'', JStr ''555-0002'')])],
                 JObj [(''id'', JNum 1),
                       (''body'', JStr ''hi''),
                       (''sent_at'', JTime 4),
                       (''read_at'', JNull),
                       (''to_user'', JObj [(''username'', JStr ''bob''),
                                          (''first_name'', JStr ''Bob''),
                                          (''last_name'', JStr ''Dobbs''),
                                          (''phone'', JStr ''555-0002'')])]]),
      chat_db)"
    by (simp only:)
  from alice' r obtain zs where "messagesTo rev ''alice'' chat_db = (Inr (JArr zs), chat_db)"
    by blast
  with messagesTo_chat_db have 2: "messagesTo rev ''alice'' chat_db =
     (Inr (JArr [JObj [(''id'', JNum 2),
                       (''body'', JStr ''hello''),
                       (''sent_at'', JTime 5),
                       (''read_at'', JTime 6),
                       (''from_user'', JObj [(''username'', JStr ''bob''),
                                            (''first_name'', JStr ''Bob''),
                                            (''last_name'', JStr ''Dobbs''),
                                            (''phone'', JStr ''555-0002'')])]]),
      chat_db)"
    by (simp only:)
  from carol ns have 3: "messagesFrom rev ''carol'' chat_db =
     (Inl (ExpressError (''No messages from this user: '' @ ''carol'') 404), chat_db)"
    by blast
  from carol nr have 4: "messagesTo rev ''carol'' chat_db =
     (Inl (ExpressError (''No messages to this user: '' @ ''carol'') 404), chat_db)"
    by blast
  from s r ns nr have l: "list_ex (\<lambda>m. m_from_username m = ''alice'') (messages chat_db)"
    "list_ex (\<lambda>m. m_to_username m = ''alice'') (messages chat_db)"
    "list_all (\<lambda>m. m_from_username m \<noteq> ''carol'') (messages chat_db)"
    "list_all (\<lambda>m. m_to_username m \<noteq> ''carol'') (messages chat_db)"
    by (simp_all add: list_ex_iff list_all_iff)
  from 3 4 have 5: "messagesFrom rev ''carol'' chat_db =
     (Inl (ExpressError ''No messages from this user: carol'' 404), chat_db)"
    and 6: "messagesTo rev ''carol'' chat_db =
     (Inl (ExpressError ''No messages to this user: carol'' 404), chat_db)"
    by simp_all
  from wf_chat_db l 1 2 5 6 show ?thesis by blast
qed

text \<open>
  C10. For a username that no row of \<^verbatim>\<open>users\<close> has, \<^verbatim>\<open>messagesFrom\<close> and
  \<^verbatim>\<open>messagesTo\<close> raise their 404 \<^verbatim>\<open>No messages\<close> error; and for any username
  whatever this is the only error that either of them raises, so that a user who does not
  exist and a user without messages get the same one, and never a
  \<^verbatim>\<open>No such user\<close> error.
\<close>

theorem messages_of_unknown_user_no_messages_error:
  "(username \<notin> usernames d \<longrightarrow>
      messagesFrom row_order username d =
        (Inl (ExpressError (''No messages from this user: '' @ username) 404), d) \<and>
      messagesTo row_order username d =
        (Inl (ExpressError (''No messages to this user: '' @ username) 404), d)) \<and>
   (\<forall>e. fst (messagesFrom row_order username d) = Inl e \<longrightarrow>
      e = ExpressError (''No messages from this user: '' @ username) 404) \<and>
   (\<forall>e. fst (messagesTo row_order username d) = Inl e \<longrightarrow>
      e = ExpressError (''No messages to this user: '' @ username) 404)"
proof (intro conjI impI allI)
  assume a: "username \<notin> usernames d"
  from messages_of_absent_user[OF a]
  show "messagesFrom row_order username d =
          (Inl (ExpressError (''No messages from this user: '' @ username) 404), d)"
    by simp
  from messages_of_absent_user[OF a]
  show "messagesTo row_order username d =
          (Inl (ExpressError (''No messages to this user: '' @ username) 404), d)"
    by simp
next
  fix e assume "fst (messagesFrom row_order username d) = Inl e"
  then show "e = ExpressError (''No messages from this user: '' @ username) 404"
    by (simp add: messagesFrom_eq split: if_splits)
next
  fix e assume "fst (messagesTo row_order username d) = Inl e"
  then show "e = ExpressError (''No messages to this user: '' @ username) 404"
    by (simp add: messagesTo_eq split: if_splits)
qed

theorem messages_of_unknown_user_no_messages_error_witness:
  "''carol'' \<notin> usernames example_db \<and>
   messagesFrom rev ''carol'' example_db =
     (Inl (ExpressError ''No messages from this user: carol'' 404), example_db) \<and>
   messagesTo rev ''carol'' example_db =
     (Inl (ExpressError ''No messages to this user: carol'' 404), example_db) \<and>
   ''bob'' \<in> usernames example_db \<and>
   fst (messagesFrom rev ''bob'' example_db) =
     Inl (ExpressError ''No messages from this user: bob'' 404)"
proof -
  have c: "''carol'' \<notin> usernames example_db" and b: "''bob'' \<in> usernames example_db"
    by (simp_all add: usernames_def example_defs)
  note carol = messages_of_unknown_user_no_messages_error[of "''carol''" example_db rev]
  note bob' = messages_of_unknown_user_no_messages_error[of "''bob''" example_db rev]
  from carol c
  have 1: "messagesFrom rev ''carol'' example_db =
             (Inl (ExpressError (''No messages from this user: '' @ ''carol'') 404), example_db)"
    and 2: "messagesTo rev ''carol'' example_db =
             (Inl (ExpressError (''No messages to this user: '' @ ''carol'') 404), example_db)"
    by blast+
  have rows: "fst (select_messages_from rev ''bob'' example_db) = []"
    by (simp add: select_messages_from_def in_store_order_def joined_users_def
        example_db_def hi_def)
  then obtain e where e: "fst (messagesFrom rev ''bob'' example_db) = Inl e"
    by (simp add: messagesFrom_eq)
  from bob' e have "e = ExpressError (''No messages from this user: '' @ ''bob'') 404"
    by blast
  with e have 3: "fst (messagesFrom rev ''bob'' example_db) =
                    Inl (ExpressError (''No messages from this user: '' @ ''bob'') 404)"
    by (simp only:)
  from c b 1 2 3 show ?thesis by simp
qed

text \<open>
  C8. On a store that satisfies its key constraints, let \<open>m\<close> be a message whose sender
  has the row \<open>a\<close> and whose recipient has the row \<open>b\<close>. Then the array of
  \<^verbatim>\<open>messagesFrom\<close> for the sender has the entry of \<open>m\<close> whose \<^verbatim>\<open>to_user\<close> is
  the public profile of \<open>b\<close>, with the recipient's username; the array of
  \<^verbatim>\<open>messagesTo\<close> for the recipient has the entry of \<open>m\<close> whose \<^verbatim>\<open>from_user\<close>
  is the public profile of \<open>a\<close>, with the sender's username; and an entry with the id
  of \<open>m\<close> is in the array of \<^verbatim>\<open>messagesFrom\<close> of no username but the sender's and of
  \<^verbatim>\<open>messagesTo\<close> of no username but the recipient's.
\<close>

theorem message_listed_for_sender_and_recipient_only:
  assumes "wf_db d" and "m \<in> set (messages d)"
    and "a \<in> set (users d)" and "b \<in> set (users d)"
    and "u_username a = m_from_username m" and "u_username b = m_to_username m"
  shows "(\<exists>ys. messagesFrom row_order (m_from_username m) d = (Inr (JArr ys), d) \<and>
            JObj [(''id'', JNum (m_id m)),
                  (''body'', JStr (m_body m)),
                  (''sent_at'', JTime (m_sent_at m)),
                  (''read_at'', null_or_time (m_read_at m)),
                  (''to_user'', JObj [(''username'', JStr (m_to_username m)),
                                     (''first_name'', JStr (u_first_name b)),
                                     (''last_name'', JStr (u_last_name b)),
                                     (''phone'', JStr (u_phone b))])] \<in> set ys) \<and>
         (\<exists>ys. messagesTo row_order (m_to_username m) d = (Inr (JArr ys), d) \<and>
            JObj [(''id'', JNum (m_id m)),
                  (''body'', JStr (m_body m)),
                  (''sent_at'', JTime (m_sent_at m)),
                  (''read_at'', null_or_time (m_read_at m)),
                  (''from_user'', JObj [(''username'', JStr (m_from_username m)),
                                       (''first_name'', JStr (u_first_name a)),
                                       (''last_name'', JStr (u_last_name a)),
                                       (''phone'', JStr (u_phone a))])] \<in> set ys) \<and>
         (\<forall>username ys kvs.
            fst (messagesFrom row_order username d) = Inr (JArr ys) \<longrightarrow> JObj kvs \<in> set ys \<longrightarrow>
            field kvs ''id'' = JNum (m_id m) \<longrightarrow> username = m_from_username m) \<and>
         (\<forall>username ys kvs.
            fst (messagesTo row_order username d) = Inr (JArr ys) \<longrightarrow> JObj kvs \<in> set ys \<longrightarrow>
            field kvs ''id'' = JNum (m_id m) \<longrightarrow> username = m_to_username m)"
proof (intro conjI allI impI)
  from sent_appears[OF assms(2-6)] assms(6)
  show "\<exists>ys. messagesFrom row_order (m_from_username m) d = (Inr (JArr ys), d) \<and>
            JObj [(''id'', JNum (m_id m)),
                  (''body'', JStr (m_body m)),
                  (''sent_at'', JTime (m_sent_at m)),
                  (''read_at'', null_or_time (m_read_at m)),
                  (''to_user'', JObj [(''username'', JStr (m_to_username m)),
                                     (''first_name'', JStr (u_first_name b)),
                                     (''last_name'', JStr (u_last_name b)),
                                     (''phone'', JStr (u_phone b))])] \<in> set ys"
    by (simp add: mess_from_joined_row)
next
  from received_appears[OF assms(2-6)] assms(5)
  show "\<exists>ys. messagesTo row_order (m_to_username m) d = (Inr (JArr ys), d) \<and>
            JObj [(''id'', JNum (m_id m)),
                  (''body'', JStr (m_body m)),
                  (''sent_at'', JTime (m_sent_at m)),
                  (''read_at'', null_or_time (m_read_at m)),
                  (''from_user'', JObj [(''username'', JStr (m_from_username m)),
                                       (''first_name'', JStr (u_first_name a)),
                                       (''last_name'', JStr (u_last_name a)),
                                       (''phone'', JStr (u_phone a))])] \<in> set ys"
    by (simp add: mess_to_joined_row)
next
  fix username ys kvs
  assume r: "fst (messagesFrom row_order username d) = Inr (JArr ys)" and y: "JObj kvs \<in> set ys"
    and i: "field kvs ''id'' = JNum (m_id m)"
  from messagesFrom_entry[OF r y] obtain m' t
    where m': "m' \<in> set (messages d)" "m_from_username m' = username"
      and k: "JObj kvs = mess_from (joined_row m' t)"
    by blast
  from k i have "m_id m' = m_id m"
    by (simp add: mess_from_joined_row field_def)
  from message_by_id[OF assms(1,2) m'(1) this] m'(2)
  show "username = m_from_username m" by simp
next
  fix username ys kvs
  assume r: "fst (messagesTo row_order username d) = Inr (JArr ys)" and y: "JObj kvs \<in> set ys"
    and i: "field kvs ''id'' = JNum (m_id m)"
  from messagesTo_entry[OF r y] obtain m' f
    where m': "m' \<in> set (messages d)" "m_to_username m' = username"
      and k: "JObj kvs = mess_to (joined_row m' f)"
    by blast
  from k i have "m_id m' = m_id m"
    by (simp add: mess_to_joined_row field_def)
  from message_by_id[OF assms(1,2) m'(1) this] m'(2)
  show "username = m_to_username m" by simp
qed

theorem message_listed_for_sender_and_recipient_only_witness:
  "wf_db example_db \<and> hi \<in> set (messages example_db) \<and>
   alice \<in> set (users example_db) \<and> bob \<in> set (users example_db) \<and>
   u_username alice = m_from_username hi \<and> u_username bob = m_to_username hi \<and>
   (\<exists>ys. messagesFrom rev ''alice'' example_db = (Inr (JArr ys), example_db) \<and>
      JObj [(''id'', JNum 1),
            (''body'', JStr ''hi''),
            (''sent_at'', JTime 4),
            (''read_at'', JNull),
            (''to_user'', JObj [(''username'', JStr ''bob''),
                               (''first_name'', JStr ''Bob''),
                               (''last_name'', JStr ''Dobbs''),
                               (''phone'', JStr ''555-0002'')])] \<in> set ys) \<and>
   (\<exists>ys. messagesTo rev ''bob'' example_db = (Inr (JArr ys), example_db) \<and>
      JObj [(''id'', JNum 1),
            (''body'', JStr ''hi''),
            (''sent_at'', JTime 4),
            (''read_at'', JNull),
            (''from_user'', JObj [(''username'', JStr ''alice''),
                                 (''first_name'', JStr ''Alice''),
                                 (''last_name'', JStr ''Liddell''),
                                 (''phone'', JStr ''555-0001'')])] \<in> set ys)"
proof -
  have h: "hi \<in> set (messages example_db)"
    and a: "alice \<in> set (users example_db)" and b: "bob \<in> set (users example_db)"
    by (simp_all add: example_db_def)
  have fa: "u_username alice = m_from_username hi" and tb: "u_username bob = m_to_username hi"
    by (simp_all add: alice_def bob_def hi_def)
  from message_listed_for_sender_and_recipient_only[OF wf_example_db h a b fa tb, of rev]
  have "(\<exists>ys. messagesFrom rev (m_from_username hi) example_db = (Inr (JArr ys), example_db) \<and>
            JObj [(''id'', JNum (m_id hi)),
                  (''body'', JStr (m_body hi)),
                  (''sent_at'', JTime (m_sent_at hi)),
                  (''read_at'', null_or_time (m_read_at hi)),
                  (''to_user'', JObj [(''username'', JStr (m_to_username hi)),
                                     (''first_name'', JStr (u_first_name bob)),
                                     (''last_name'', JStr (u_last_name bob)),
                                     (''phone'', JStr (u_phone bob))])] \<in> set ys) \<and>
         (\<exists>ys. messagesTo rev (m_to_username hi) example_db = (Inr (JArr ys), example_db) \<and>
            JObj [(''id'', JNum (m_id hi)),
                  (''body'', JStr (m_body hi)),
                  (''sent_at'', JTime (m_sent_at hi)),
                  (''read_at'', null_or_time (m_read_at hi)),
                  (''from_user'', JObj [(''username'', JStr (m_from_username hi)),
                                       (''first_name'', JStr (u_first_name alice)),
                                       (''last_name'', JStr (u_last_name alice)),
                                       (''phone'', JStr (u_phone alice))])] \<in> set ys)"
    by blast
  then have "(\<exists>ys. messagesFrom rev ''alice'' example_db = (Inr (JArr ys), example_db) \<and>
      JObj [(''id'', JNum 1),
            (''body'', JStr ''hi''),
            (''sent_at'', JTime 4),
            (''read_at'', JNull),
            (''to_user'', JObj [(''username'', JStr ''bob''),
                               (''first_name'', JStr ''Bob''),
                               (''last_name'', JStr ''Dobbs''),
                               (''phone'', JStr ''555-0002'')])] \<in> set ys) \<and>
   (\<exists>ys. messagesTo rev ''bob'' example_db = (Inr (JArr ys), example_db) \<and>
      JObj [(''id'', JNum 1),
            (''body'', JStr ''hi''),
            (''sent_at'', JTime 4),
            (''read_at'', JNull),
            (''from_user'', JObj [(''username'', JStr ''alice''),
                                 (''first_name'', JStr ''Alice''),
                                 (''last_name'', JStr ''Liddell''),
                                 (''phone'', JStr ''555-0001'')])] \<in> set ys)"
    by (simp add: hi_def alice_def bob_def)
  with wf_example_db h a b fa tb show ?thesis by blast
qed

end
